theory Spec2Isabelle
  imports Main "HOL-Library.AList"
begin

section \<open>Strings, paths and exceptions\<close>

text \<open>
  A path and the content of a file are Python strings and byte strings; both are
  character lists here. \<open>lower\<close> is \<^verbatim>\<open>str.lower()\<close> on the ASCII letters
  (no other character lowers to a letter of a supported extension), and
  \<open>str_split\<close> is \<^verbatim>\<open>str.split(sep)\<close> for a separator of one character: it
  always returns at least one piece.
\<close>

type_synonym path = string
type_synonym bytes = string

definition lower_char :: "char \<Rightarrow> char" where
  "lower_char c =
     (case map_of (zip ''ABCDEFGHIJKLMNOPQRSTUVWXYZ'' ''abcdefghijklmnopqrstuvwxyz'') c of
        None \<Rightarrow> c
      | Some l \<Rightarrow> l)"

definition lower :: "string \<Rightarrow> string" where
  "lower s = map lower_char s"

fun str_split :: "char \<Rightarrow> string \<Rightarrow> string list" where
  "str_split sep [] = [[]]"
| "str_split sep (c # cs) =
     (if c = sep then [] # str_split sep cs
      else (case str_split sep cs of [] \<Rightarrow> [[c]] | w # ws \<Rightarrow> (c # w) # ws))"

text \<open>Line 51: \<^verbatim>\<open>ext = filepath.split('.')[-1].lower()\<close>.\<close>

definition extension :: "path \<Rightarrow> string" where
  "extension filepath = lower (last (str_split CHR ''.'' filepath))"

definition csv_extensions :: "string list" where
  "csv_extensions = [''csv'', ''txt'']"

definition excel_extensions :: "string list" where
  "excel_extensions = [''xls'', ''xlsx'', ''xlsm'', ''xltx'', ''xltm'']"

definition supported_extensions :: "string list" where
  "supported_extensions = csv_extensions @ excel_extensions @ [''sas7bdat'', ''xpt'']"

text \<open>
  The exceptions the program and its libraries raise. Each one is a subclass of Python's
  \<^verbatim>\<open>Exception\<close>, so \<^verbatim>\<open>except Exception\<close> handles every value of this type.
  A computation that may raise returns \<open>exn + 'a\<close>, with \<open>Inl\<close> the exception.
\<close>

datatype exn =
    ValueError string
  | AttributeError string
  | FileNotFoundError
  | PermissionError
  | UnicodeDecodeError
  | CsvError string
  | ParserError string
  | EmptyDataError
  | ReadError string

section \<open>Tables and Python values\<close>

datatype scalar = Num int | Str string | Missing

record dataframe =
  columns :: "string list"
  rows :: "scalar list list"

text \<open>
  What \<open>read_file\<close> can hand back: \<^verbatim>\<open>None\<close>, a DataFrame, or the dict of DataFrames
  keyed by sheet name that \<^verbatim>\<open>pd.read_excel\<close> returns for \<^verbatim>\<open>sheet_name=None\<close>.
\<close>

datatype pyval = PyNone | DataFrame dataframe | SheetDict "(string \<times> dataframe) list"

text \<open>\<^verbatim>\<open>df.head(n)\<close> and \<^verbatim>\<open>df.to_dict('records')\<close>: one dict per row, keyed by column
  name; a dict keeps a key at its first position and the value written last.\<close>

definition head :: "nat \<Rightarrow> dataframe \<Rightarrow> dataframe" where
  "head n df = df\<lparr>rows := take n (rows df)\<rparr>"

definition dict_of :: "(string \<times> scalar) list \<Rightarrow> (string \<times> scalar) list" where
  "dict_of kvs = foldl (\<lambda>d (k, v). AList.update k v d) [] kvs"

definition to_dict_records :: "dataframe \<Rightarrow> (string \<times> scalar) list list" where
  "to_dict_records df = map (\<lambda>r. dict_of (zip (columns df) r)) (rows df)"

section \<open>The file system\<close>

text \<open>
  The working directory holds files by path; \<open>temp_dir\<close> is \<^verbatim>\<open>os.path.exists('temp')\<close>.
  A file the process may not open is \<open>NoAccess\<close>. Paths are compared as written.
\<close>

datatype node = Regular bytes | NoAccess

record filesystem =
  temp_dir :: bool
  files :: "path \<rightharpoonup> node"

definition open_read :: "filesystem \<Rightarrow> path \<Rightarrow> exn + bytes" where
  "open_read fsys p =
     (case files fsys p of
        None \<Rightarrow> Inl FileNotFoundError
      | Some NoAccess \<Rightarrow> Inl PermissionError
      | Some (Regular c) \<Rightarrow> Inr c)"

definition open_write :: "filesystem \<Rightarrow> path \<Rightarrow> bytes \<Rightarrow> exn + filesystem" where
  "open_write fsys p c =
     (case files fsys p of
        Some NoAccess \<Rightarrow> Inl PermissionError
      | _ \<Rightarrow> Inr (fsys\<lparr>files := (files fsys)(p \<mapsto> Regular c)\<rparr>))"

definition makedirs_temp :: "filesystem \<Rightarrow> filesystem" where
  "makedirs_temp fsys = fsys\<lparr>temp_dir := True\<rparr>"

definition rmtree_temp :: "filesystem \<Rightarrow> filesystem" where
  "rmtree_temp fsys =
     fsys\<lparr>temp_dir := False,
          files := (\<lambda>p. if take 5 p = ''temp/'' then None else files fsys p)\<rparr>"

section \<open>The libraries\<close>

text \<open>
  The program calls the text layer of \<^verbatim>\<open>open\<close>, \<^verbatim>\<open>csv.Sniffer\<close>, pandas and pyreadstat.
  Their code is not part of the repository, so each call is a field of \<open>env\<close>, a function
  of the content of the file it is given:
  \<^item> \<open>read_text c n\<close>: \<^verbatim>\<open>open(p, 'r', newline='').read(n)\<close> on a file of content \<open>c\<close>;
  \<^item> \<open>has_header\<close>, \<open>sniff\<close>: \<^verbatim>\<open>Sniffer().has_header(sample)\<close> and
    \<^verbatim>\<open>Sniffer().sniff(sample).delimiter\<close>; a dialect's delimiter is one character
    (\<^verbatim>\<open>sniff\<close> raises when it finds none);
  \<^item> \<open>read_csv c d h\<close>: \<^verbatim>\<open>pd.read_csv(p, delimiter=d, header=h)\<close>; the program never
    passes \<^verbatim>\<open>header\<close>, so every call of the model passes the default \<open>HeaderInfer\<close>,
    documented by pandas as identical to \<^verbatim>\<open>header=0\<close> when no names are given;
  \<^item> \<open>sheet_names\<close>: \<^verbatim>\<open>pd.ExcelFile(p).sheet_names\<close>; \<open>read_sheet c n\<close>: the parse of the
    sheet named \<open>n\<close>;
  \<^item> \<open>read_sas7bdat\<close>, \<open>read_xport\<close>: the pyreadstat readers, returning data and metadata.
\<close>

datatype header_arg = HeaderInfer | HeaderNone | HeaderRow nat

record env =
  read_text :: "bytes \<Rightarrow> nat \<Rightarrow> exn + string"
  has_header :: "string \<Rightarrow> exn + bool"
  sniff :: "string \<Rightarrow> exn + char"
  read_csv :: "bytes \<Rightarrow> string \<Rightarrow> header_arg \<Rightarrow> exn + dataframe"
  sheet_names :: "bytes \<Rightarrow> exn + string list"
  read_sheet :: "bytes \<Rightarrow> string \<Rightarrow> exn + dataframe"
  read_sas7bdat :: "bytes \<Rightarrow> exn + dataframe \<times> string list"
  read_xport :: "bytes \<Rightarrow> exn + dataframe \<times> string list"

text \<open>
  \<^verbatim>\<open>pd.read_excel(p, sheet_name=s)\<close>. pandas documents \<^verbatim>\<open>sheet_name=None\<close> as
  "all worksheets" with a dict of DataFrames as the result, and a string as the one
  sheet of that name.
\<close>

primrec read_sheets :: "env \<Rightarrow> bytes \<Rightarrow> string list \<Rightarrow> exn + (string \<times> dataframe) list" where
  "read_sheets e c [] = Inr []"
| "read_sheets e c (n # ns) =
     (case read_sheet e c n of
        Inl x \<Rightarrow> Inl x
      | Inr df \<Rightarrow>
          (case read_sheets e c ns of
             Inl x \<Rightarrow> Inl x
           | Inr ds \<Rightarrow> Inr ((n, df) # ds)))"

definition read_excel :: "env \<Rightarrow> bytes \<Rightarrow> string option \<Rightarrow> exn + pyval" where
  "read_excel e c sheet_name =
     (case sheet_name of
        Some n \<Rightarrow>
          (case read_sheet e c n of
             Inl x \<Rightarrow> Inl x
           | Inr df \<Rightarrow> Inr (DataFrame df))
      | None \<Rightarrow>
          (case sheet_names e c of
             Inl x \<Rightarrow> Inl x
           | Inr ns \<Rightarrow>
               (case read_sheets e c ns of
                  Inl x \<Rightarrow> Inl x
                | Inr ds \<Rightarrow> Inr (SheetDict ds))))"

section \<open>The page\<close>

text \<open>
  The page is the list of the elements the handlers created, in creation order; an
  element is named by its index. \<^verbatim>\<open>container.clear()\<close> empties a row,
  \<open>remove_card\<close> leaves \<open>Deleted\<close>. A button carries the handler its click runs.
\<close>

datatype action =
    ManualDelimiter path
  | ExcelSheet path
  | ClearContainer
  | RemoveCard

datatype widget =
    Input string
  | Select "string list" string
  | Button string action
  | Label string
  | Table "string list" "(string \<times> scalar) list list"

datatype element = Row "widget list" | Card "widget list" | Deleted

record state =
  fs :: filesystem
  ui :: "element list"
  notifications :: "exn list"
  running :: bool

text \<open>\<^verbatim>\<open>ui.notify(f'Error: {e}', type='negative')\<close>.\<close>

definition notify :: "exn \<Rightarrow> state \<Rightarrow> state" where
  "notify x st = st\<lparr>notifications := notifications st @ [x]\<rparr>"

text \<open>Lines 56-60 and 66-70: the two rows that ask for input.\<close>

definition delimiter_prompt :: "path \<Rightarrow> element" where
  "delimiter_prompt filepath =
     Row [Input ''Enter delimiter:'',
          Button ''Submit'' (ManualDelimiter filepath),
          Button ''Close'' ClearContainer]"

definition sheet_prompt :: "path \<Rightarrow> string list \<Rightarrow> element" where
  "sheet_prompt filepath names =
     Row [Select names ''Select sheet'',
          Button ''Load'' (ExcelSheet filepath),
          Button ''Close'' ClearContainer]"

section \<open>The program\<close>

text \<open>Lines 22-28. The condition of the conditional expression is evaluated first.\<close>

definition detect_csv_delimiter :: "env \<Rightarrow> filesystem \<Rightarrow> path \<Rightarrow> exn + string option" where
  "detect_csv_delimiter e fsys filepath =
     (case
        (case open_read fsys filepath of
           Inl x \<Rightarrow> Inl x
         | Inr c \<Rightarrow>
             (case read_text e c 2048 of
                Inl x \<Rightarrow> Inl x
              | Inr sample \<Rightarrow>
                  (case has_header e sample of
                     Inl x \<Rightarrow> Inl x
                   | Inr True \<Rightarrow>
                       (case sniff e sample of
                          Inl x \<Rightarrow> Inl x
                        | Inr d \<Rightarrow> Inr (Some [d]))
                   | Inr False \<Rightarrow> Inr (Some '',''))))
      of
        Inl x \<Rightarrow> Inr None
      | Inr r \<Rightarrow> Inr r)"

text \<open>\<^verbatim>\<open>not x\<close> for a value that is \<^verbatim>\<open>None\<close> or a string.\<close>

definition falsy :: "string option \<Rightarrow> bool" where
  "falsy x = (case x of None \<Rightarrow> True | Some s \<Rightarrow> s = [])"

text \<open>
  Lines 51-80. \<open>read_file\<close> returns the value and the state; the only change it makes to
  the state is the row it adds before it returns \<^verbatim>\<open>None\<close>. Each arm of the
  \<^verbatim>\<open>match\<close> is a definition of its own, in the order of the source.
\<close>

definition csv_case :: "env \<Rightarrow> state \<Rightarrow> path \<Rightarrow> exn + pyval \<times> state" where
  "csv_case e st filepath =
     (case detect_csv_delimiter e (fs st) filepath of
        Inl x \<Rightarrow> Inl x
      | Inr delimiter \<Rightarrow>
          if falsy delimiter
          then Inr (PyNone, st\<lparr>ui := ui st @ [delimiter_prompt filepath]\<rparr>)
          else
            (case open_read (fs st) filepath of
               Inl x \<Rightarrow> Inl x
             | Inr c \<Rightarrow>
                 (case read_csv e c (case delimiter of None \<Rightarrow> [] | Some d \<Rightarrow> d) HeaderInfer of
                    Inl x \<Rightarrow> Inl x
                  | Inr df \<Rightarrow> Inr (DataFrame df, st))))"

definition excel_case :: "env \<Rightarrow> state \<Rightarrow> path \<Rightarrow> string option \<Rightarrow> exn + pyval \<times> state" where
  "excel_case e st filepath sheet_name =
     (case open_read (fs st) filepath of
        Inl x \<Rightarrow> Inl x
      | Inr c \<Rightarrow>
          (case sheet_names e c of
             Inl x \<Rightarrow> Inl x
           | Inr names \<Rightarrow>
               if 1 < length names \<and> falsy sheet_name
               then Inr (PyNone, st\<lparr>ui := ui st @ [sheet_prompt filepath names]\<rparr>)
               else
                 (case read_excel e c sheet_name of
                    Inl x \<Rightarrow> Inl x
                  | Inr v \<Rightarrow> Inr (v, st))))"

definition sas7bdat_case :: "env \<Rightarrow> state \<Rightarrow> path \<Rightarrow> exn + pyval \<times> state" where
  "sas7bdat_case e st filepath =
     (case open_read (fs st) filepath of
        Inl x \<Rightarrow> Inl x
      | Inr c \<Rightarrow>
          (case read_sas7bdat e c of
             Inl x \<Rightarrow> Inl x
           | Inr (df, meta) \<Rightarrow> Inr (DataFrame df, st)))"

definition xpt_case :: "env \<Rightarrow> state \<Rightarrow> path \<Rightarrow> exn + pyval \<times> state" where
  "xpt_case e st filepath =
     (case open_read (fs st) filepath of
        Inl x \<Rightarrow> Inl x
      | Inr c \<Rightarrow>
          (case read_xport e c of
             Inl x \<Rightarrow> Inl x
           | Inr (df, meta) \<Rightarrow> Inr (DataFrame df, st)))"

definition read_file :: "env \<Rightarrow> state \<Rightarrow> path \<Rightarrow> string option \<Rightarrow> exn + pyval \<times> state" where
  "read_file e st filepath sheet_name =
     (let ext = extension filepath in
      if ext \<in> set csv_extensions then csv_case e st filepath
      else if ext \<in> set excel_extensions then excel_case e st filepath sheet_name
      else if ext = ''sas7bdat'' then sas7bdat_case e st filepath
      else if ext = ''xpt'' then xpt_case e st filepath
      else Inl (ValueError ''Unsupported file format''))"

text \<open>
  Lines 166-170. The card and its label exist before \<^verbatim>\<open>df.columns\<close> is evaluated, so
  they stay on the page when that raises (the value is not a DataFrame).
\<close>

definition preview_card :: "path \<Rightarrow> dataframe \<Rightarrow> element" where
  "preview_card filename df =
     Card [Label (''Preview of '' @ filename),
           Table (columns df) (to_dict_records (head 10 df)),
           Button ''Close'' RemoveCard]"

definition display_table :: "state \<Rightarrow> path \<Rightarrow> pyval \<Rightarrow> (exn + unit) \<times> state" where
  "display_table st filename v =
     (case v of
        DataFrame df \<Rightarrow> (Inr (), st\<lparr>ui := ui st @ [preview_card filename df]\<rparr>)
      | _ \<Rightarrow>
          (Inl (AttributeError ''columns''),
           st\<lparr>ui := ui st @ [Card [Label (''Preview of '' @ filename)]]\<rparr>))"

text \<open>Lines 95-97: no handler of its own, so an exception leaves to the caller; the
  container is not used. The sheet name is the value of the select, \<^verbatim>\<open>None\<close> while
  nothing is selected.\<close>

definition handle_excel_sheet ::
  "env \<Rightarrow> state \<Rightarrow> path \<Rightarrow> string option \<Rightarrow> nat \<Rightarrow> (exn + unit) \<times> state" where
  "handle_excel_sheet e st filepath sheet_name container =
     (case read_file e st filepath sheet_name of
        Inl x \<Rightarrow> (Inl x, st)
      | Inr (df, st') \<Rightarrow>
          if df \<noteq> PyNone then display_table st' filepath df else (Inr (), st'))"

text \<open>Lines 112-117; \<open>container\<close> is the index of the row that holds the input.\<close>

definition handle_manual_delimiter :: "env \<Rightarrow> state \<Rightarrow> path \<Rightarrow> string \<Rightarrow> nat \<Rightarrow> state" where
  "handle_manual_delimiter e st filepath delimiter container =
     (case
        (case open_read (fs st) filepath of
           Inl x \<Rightarrow> Inl x
         | Inr c \<Rightarrow> read_csv e c delimiter HeaderInfer)
      of
        Inl x \<Rightarrow> notify x st
      | Inr df \<Rightarrow>
          (let st' = st\<lparr>ui := (ui st)[container := Row []]\<rparr> in
           case display_table st' filepath (DataFrame df) of
             (Inl x, st'') \<Rightarrow> notify x st''
           | (Inr u, st'') \<Rightarrow> st''))"

text \<open>Lines 134-148; \<open>name\<close> and \<open>content\<close> are \<^verbatim>\<open>file.name\<close> and the bytes read
  from \<^verbatim>\<open>file.content\<close>.\<close>

definition handle_upload :: "env \<Rightarrow> state \<Rightarrow> string \<Rightarrow> bytes \<Rightarrow> state" where
  "handle_upload e st name content =
     (let st1 = (if temp_dir (fs st) then st else st\<lparr>fs := makedirs_temp (fs st)\<rparr>);
          filename = ''temp/'' @ name
      in case open_write (fs st1) filename content of
           Inl x \<Rightarrow> notify x st1
         | Inr fs2 \<Rightarrow>
             (let st2 = st1\<lparr>fs := fs2\<rparr>
              in case read_file e st2 filename None of
                   Inl x \<Rightarrow> notify x st2
                 | Inr (df, st3) \<Rightarrow>
                     if df \<noteq> PyNone
                     then (case display_table st3 filename df of
                             (Inl x, st4) \<Rightarrow> notify x st4
                           | (Inr u, st4) \<Rightarrow> st4)
                     else st3))"

text \<open>Lines 184-185 and the \<^verbatim>\<open>container.clear()\<close> of the two Close buttons.\<close>

definition remove_card :: "state \<Rightarrow> nat \<Rightarrow> state" where
  "remove_card st card_id = st\<lparr>ui := (ui st)[card_id := Deleted]\<rparr>"

definition clear_container :: "state \<Rightarrow> nat \<Rightarrow> state" where
  "clear_container st container = st\<lparr>ui := (ui st)[container := Row []]\<rparr>"

text \<open>Lines 196-198.\<close>

definition shutdown :: "state \<Rightarrow> state" where
  "shutdown st =
     (let st1 = (if temp_dir (fs st) then st\<lparr>fs := rmtree_temp (fs st)\<rparr> else st)
      in st1\<lparr>running := False\<rparr>)"




section \<open>A small instance of the libraries\<close>

text \<open>
  To run the program on concrete files the library calls need values. \<open>ref_env\<close> is a
  small instance: text is decoded as ASCII (a byte above 127 does not decode), a table is lines of fields cut
  at a one-character delimiter (no quoting), the sniffer accepts a preferred delimiter
  that occurs equally often on every line and votes on the header column by column as
  \<^verbatim>\<open>csv.Sniffer\<close> does (a numeric column under a non-numeric first cell, or cells of
  one length under a first cell of another, vote for a header), the reader refuses a
  line with more fields than the header, and a workbook is written as one \<^verbatim>\<open>#name\<close>
  line per sheet followed by that sheet's lines. \<open>to_csv\<close> writes a table with
  comma delimiter, header line first. The instance is a stand-in, not the libraries:
  a theorem about \<open>ref_env\<close> shows what the program does when the libraries answer as
  the instance does on that file.
\<close>

definition text_lines :: "string \<Rightarrow> string list" where
  "text_lines s = filter (\<lambda>l. l \<noteq> []) (str_split CHR 0x0A s)"

definition is_digits :: "string \<Rightarrow> bool" where
  "is_digits s = (s \<noteq> [] \<and> list_all (\<lambda>c. c \<in> set ''0123456789'') s)"

definition digit_val :: "char \<Rightarrow> nat" where
  "digit_val c = (case map_of (zip ''0123456789'' [0 ..< 10]) c of None \<Rightarrow> 0 | Some n \<Rightarrow> n)"

definition nat_of_digits :: "string \<Rightarrow> nat" where
  "nat_of_digits s = foldl (\<lambda>n c. 10 * n + digit_val c) 0 s"

fun digits :: "nat \<Rightarrow> string" where
  "digits n =
     (if n < 10 then [''0123456789'' ! n]
      else digits (n div 10) @ [''0123456789'' ! (n mod 10)])"




definition parse_cell :: "string \<Rightarrow> scalar" where
  "parse_cell s =
     (if s = [] then Missing
      else if is_digits s then Num (int (nat_of_digits s))
      else Str s)"

definition make_table :: "string list \<Rightarrow> string list list \<Rightarrow> exn + dataframe" where
  "make_table names body =
     (if list_ex (\<lambda>r. length names < length r) body
      then Inl (ParserError ''Error tokenizing data'')
      else Inr \<lparr>columns = names,
                rows = map (\<lambda>r. map parse_cell r @ replicate (length names - length r) Missing) body\<rparr>)"

definition ref_read_csv :: "bytes \<Rightarrow> string \<Rightarrow> header_arg \<Rightarrow> exn + dataframe" where
  "ref_read_csv c d h =
     (case d of
        [sep] \<Rightarrow>
          (let rs = map (str_split sep) (text_lines c);
               rs' = (case h of HeaderRow n \<Rightarrow> drop n rs | _ \<Rightarrow> rs)
           in case rs' of
                [] \<Rightarrow> Inl EmptyDataError
              | r # body \<Rightarrow>
                  (case h of
                     HeaderNone \<Rightarrow> make_table (map digits [0 ..< length r]) rs'
                   | _ \<Rightarrow> make_table r body))
      | _ \<Rightarrow> Inl (ParserError ''delimiter''))"

definition count_char :: "char \<Rightarrow> string \<Rightarrow> nat" where
  "count_char c s = length (filter (\<lambda>x. x = c) s)"

definition consistent :: "char \<Rightarrow> string list \<Rightarrow> bool" where
  "consistent d ls =
     (case ls of
        [] \<Rightarrow> False
      | l # rest \<Rightarrow> 0 < count_char d l \<and> list_all (\<lambda>r. count_char d r = count_char d l) rest)"

definition ref_sniff :: "string \<Rightarrow> exn + char" where
  "ref_sniff sample =
     (case filter (\<lambda>d. consistent d (text_lines sample)) [CHR '','', CHR 0x09, CHR '';'', CHR '' '', CHR '':''] of
        [] \<Rightarrow> Inl (CsvError ''Could not determine delimiter'')
      | d # ds \<Rightarrow> Inr d)"

definition column_vote :: "string \<Rightarrow> string list \<Rightarrow> int" where
  "column_vote h cells =
     (if cells = [] then 1
      else if list_all is_digits cells then (if is_digits h then - 1 else 1)
      else if list_all (\<lambda>x. \<not> is_digits x \<and> length x = length (hd cells)) cells
      then (if length h = length (hd cells) then - 1 else 1)
      else 0)"

definition ref_has_header :: "string \<Rightarrow> exn + bool" where
  "ref_has_header sample =
     (case ref_sniff sample of
        Inl x \<Rightarrow> Inl x
      | Inr d \<Rightarrow>
          (case map (str_split d) (text_lines sample) of
             [] \<Rightarrow> Inl (CsvError ''empty sample'')
           | h # body \<Rightarrow>
               (let good = filter (\<lambda>r. length r = length h) body
                in Inr (0 < sum_list (map (\<lambda>i. column_vote (h ! i) (map (\<lambda>r. r ! i) good)) [0 ..< length h])))))"

definition ref_sheets :: "bytes \<Rightarrow> (string \<times> bytes) list" where
  "ref_sheets c =
     map (\<lambda>s. (takeWhile (\<lambda>x. x \<noteq> CHR 0x0A) s, drop 1 (dropWhile (\<lambda>x. x \<noteq> CHR 0x0A) s)))
       (drop 1 (str_split CHR ''#'' c))"

definition ref_sheet_names :: "bytes \<Rightarrow> exn + string list" where
  "ref_sheet_names c =
     (if take 1 c = ''#'' then Inr (map fst (ref_sheets c)) else Inl (ReadError ''not a workbook''))"

definition ref_read_sheet :: "bytes \<Rightarrow> string \<Rightarrow> exn + dataframe" where
  "ref_read_sheet c n =
     (case map_of (ref_sheets c) n of
        None \<Rightarrow> Inl (ValueError ''Worksheet not found'')
      | Some body \<Rightarrow> ref_read_csv body '','' HeaderInfer)"

definition ref_read_stat :: "bytes \<Rightarrow> exn + dataframe \<times> string list" where
  "ref_read_stat c =
     (case ref_read_csv c '','' HeaderInfer of
        Inl x \<Rightarrow> Inl x
      | Inr df \<Rightarrow> Inr (df, columns df))"

definition ref_read_text :: "bytes \<Rightarrow> nat \<Rightarrow> exn + string" where
  "ref_read_text c n =
     (if list_all (\<lambda>x. \<not> digit7 x) (take n c) then Inr (take n c) else Inl UnicodeDecodeError)"

definition ref_env :: env where
  "ref_env =
     \<lparr>read_text = ref_read_text,
      has_header = ref_has_header,
      sniff = ref_sniff,
      read_csv = ref_read_csv,
      sheet_names = ref_sheet_names,
      read_sheet = ref_read_sheet,
      read_sas7bdat = ref_read_stat,
      read_xport = ref_read_stat\<rparr>"

definition initial_state :: state where
  "initial_state = \<lparr>fs = \<lparr>temp_dir = False, files = Map.empty\<rparr>, ui = [], notifications = [], running = True\<rparr>"

text \<open>A session whose working directory holds one file.\<close>

definition state_with :: "path \<Rightarrow> bytes \<Rightarrow> state" where
  "state_with p c = initial_state\<lparr>fs := \<lparr>temp_dir = False, files = [p \<mapsto> Regular c]\<rparr>\<rparr>"

text \<open>The state once \<open>handle_upload\<close> has created \<^verbatim>\<open>temp\<close> and written the uploaded
  file, and a file system given by its entries.\<close>

definition written :: "state \<Rightarrow> string \<Rightarrow> bytes \<Rightarrow> state" where
  "written st name content =
     st\<lparr>fs := (fs st)\<lparr>temp_dir := True,
                        files := (files (fs st))(''temp/'' @ name \<mapsto> Regular content)\<rparr>\<rparr>"

definition fs_of :: "(path \<times> node) list \<Rightarrow> filesystem" where
  "fs_of entries = \<lparr>temp_dir = False, files = map_of entries\<rparr>"



text \<open>A file whose third line has one field more than its header.\<close>

definition ragged_csv :: bytes where
  "ragged_csv = ''a,b\<newline>1,2\<newline>3,4,5\<newline>''"



section \<open>The extension\<close>

lemma str_split_nonempty: "str_split sep s \<noteq> []"
  by (induction s) (auto split: list.splits)

lemma str_split_no_sep: "sep \<notin> set s \<Longrightarrow> str_split sep s = [s]"
  by (induction s) auto

lemma str_split_sep_two:
  "\<exists>w v vs. str_split sep (p @ sep # s) = w # v # vs"
proof (induction p)
  case Nil
  then show ?case using str_split_nonempty [of sep s] by (cases "str_split sep s") auto
next
  case (Cons a p)
  then show ?case by auto
qed

lemma last_str_split_append:
  "sep \<notin> set s \<Longrightarrow> last (str_split sep (p @ sep # s)) = s"
proof (induction p)
  case Nil
  then show ?case by (simp add: str_split_no_sep)
next
  case (Cons a p)
  obtain w v vs where "str_split sep (p @ sep # s) = w # v # vs"
    using str_split_sep_two by blast
  with Cons show ?case by auto
qed

lemma extension_suffix:
  "CHR ''.'' \<notin> set s \<Longrightarrow> extension (p @ CHR ''.'' # s) = lower s"
  by (simp add: extension_def last_str_split_append)

lemma extension_dotless:
  "CHR ''.'' \<notin> set filepath \<Longrightarrow> extension filepath = lower filepath"
  by (simp add: extension_def str_split_no_sep)

lemma supported_split:
  "x \<in> set supported_extensions \<longleftrightarrow>
     x \<in> set csv_extensions \<or> x \<in> set excel_extensions \<or> x = ''sas7bdat'' \<or> x = ''xpt''"
  by (auto simp: supported_extensions_def)

lemma read_file_unsupported:
  "extension filepath \<notin> set supported_extensions \<Longrightarrow>
     read_file e st filepath sheet_name = Inl (ValueError ''Unsupported file format'')"
  by (simp add: read_file_def supported_split)

lemma handle_upload_unsupported:
  assumes "extension (''temp/'' @ name) \<notin> set supported_extensions"
  shows "ui (handle_upload e st name content) = ui st"
    and "notifications (handle_upload e st name content) =
           notifications st @
             [if files (fs st) (''temp/'' @ name) = Some NoAccess then PermissionError
              else ValueError ''Unsupported file format'']"
  using assms
  by (auto simp: handle_upload_def read_file_unsupported notify_def open_write_def makedirs_temp_def
      Let_def split: option.splits node.splits)

text \<open>
  C4. The extension is the lowercased text after the last dot. When it is none of the nine
  supported ones, \<open>read_file\<close> raises \<^verbatim>\<open>ValueError('Unsupported file format')\<close>
  whatever the libraries and the files are (no reader is consulted), and an upload of
  such a file adds nothing to the page: it ends in one notification.
\<close>

theorem unsupported_extension_rejected:
  "(CHR ''.'' \<notin> set s \<longrightarrow> extension (p @ CHR ''.'' # s) = lower s) \<and>
   (extension filepath \<notin> set supported_extensions \<longrightarrow>
      read_file e st filepath sheet_name = Inl (ValueError ''Unsupported file format'')) \<and>
   (extension (''temp/'' @ name) \<notin> set supported_extensions \<longrightarrow>
      ui (handle_upload e st name content) = ui st \<and>
      notifications (handle_upload e st name content) =
        notifications st @
          [if files (fs st) (''temp/'' @ name) = Some NoAccess then PermissionError
           else ValueError ''Unsupported file format''])"
  using extension_suffix read_file_unsupported handle_upload_unsupported by blast

theorem unsupported_extension_rejected_witness:
  "extension ''data.JSON'' = ''json'' \<and>
   ''json'' \<notin> set supported_extensions \<and>
   read_file ref_env initial_state ''data.JSON'' None = Inl (ValueError ''Unsupported file format'') \<and>
   ui (handle_upload ref_env initial_state ''data.json'' ''{}'') = [] \<and>
   notifications (handle_upload ref_env initial_state ''data.json'' ''{}'') =
     [ValueError ''Unsupported file format'']"
proof -
  have h1: "CHR ''.'' \<notin> set ''JSON''" by simp
  have h2: "extension ''data.JSON'' \<notin> set supported_extensions" by code_simp
  have h3: "extension (''temp/'' @ ''data.json'') \<notin> set supported_extensions" by code_simp
  have h4: "lower ''JSON'' = ''json''" by code_simp
  have h5: "''json'' \<notin> set supported_extensions" by code_simp
  have h6: "files (fs initial_state) (''temp/'' @ ''data.json'') \<noteq> Some NoAccess"
    by (simp add: initial_state_def)
  have h7: "ui initial_state = [] \<and> notifications initial_state = []"
    by (simp add: initial_state_def)
  note t = unsupported_extension_rejected [where s = "''JSON''" and p = "''data''"
      and filepath = "''data.JSON''" and e = ref_env and st = initial_state and sheet_name = None
      and name = "''data.json''" and content = "''{}''"]
  from t h1 h2 h3 h4 h5 h6 h7 show ?thesis by simp
qed

text \<open>
  C10. A path without a dot is its own extension, lowercased: \<open>read_file\<close> takes the arm
  of the format whose name the whole path spells, and raises the unsupported-format
  error for every other dotless path.
\<close>

theorem dotless_path_uses_whole_name:
  "CHR ''.'' \<notin> set filepath \<Longrightarrow>
     extension filepath = lower filepath \<and>
     read_file e st filepath sheet_name =
       (if lower filepath \<in> set csv_extensions then csv_case e st filepath
        else if lower filepath \<in> set excel_extensions then excel_case e st filepath sheet_name
        else if lower filepath = ''sas7bdat'' then sas7bdat_case e st filepath
        else if lower filepath = ''xpt'' then xpt_case e st filepath
        else Inl (ValueError ''Unsupported file format''))"
  by (simp add: extension_dotless read_file_def)

theorem dotless_path_uses_whole_name_witness:
  "CHR ''.'' \<notin> set ''CSV'' \<and>
   extension ''CSV'' = ''csv'' \<and>
   read_file ref_env (state_with ''CSV'' ''a,b\<newline>1,2\<newline>'') ''CSV'' None =
     csv_case ref_env (state_with ''CSV'' ''a,b\<newline>1,2\<newline>'') ''CSV'' \<and>
   map_sum id fst (csv_case ref_env (state_with ''CSV'' ''a,b\<newline>1,2\<newline>'') ''CSV'') =
     Inr (DataFrame \<lparr>columns = [''a'', ''b''], rows = [[Num 1, Num 2]]\<rparr>) \<and>
   CHR ''.'' \<notin> set ''Makefile'' \<and>
   read_file ref_env (state_with ''Makefile'' ''a,b\<newline>1,2\<newline>'') ''Makefile'' None =
     Inl (ValueError ''Unsupported file format'')"
proof -
  have h1: "CHR ''.'' \<notin> set ''CSV''" by simp
  have h2: "lower ''CSV'' = ''csv''" by code_simp
  have h3: "''csv'' \<in> set csv_extensions" by code_simp
  have h4: "map_sum id fst (csv_case ref_env (state_with ''CSV'' ''a,b\<newline>1,2\<newline>'') ''CSV'') =
     Inr (DataFrame \<lparr>columns = [''a'', ''b''], rows = [[Num 1, Num 2]]\<rparr>)" by code_simp
  have h5: "CHR ''.'' \<notin> set ''Makefile''" by simp
  have h6: "lower ''Makefile'' = ''makefile''" by code_simp
  have h7: "''makefile'' \<notin> set csv_extensions \<and> ''makefile'' \<notin> set excel_extensions" by code_simp
  note t1 = dotless_path_uses_whole_name [OF h1, of ref_env "state_with ''CSV'' ''a,b\<newline>1,2\<newline>''" None]
  note t2 = dotless_path_uses_whole_name [OF h5, of ref_env "state_with ''Makefile'' ''a,b\<newline>1,2\<newline>''" None]
  from t1 t2 h1 h2 h3 h4 h5 h6 h7 show ?thesis by simp
qed

section \<open>Delimiter resolution\<close>

lemma detect_open_fails:
  "open_read fsys filepath = Inl x \<Longrightarrow> detect_csv_delimiter e fsys filepath = Inr None"
  by (simp add: detect_csv_delimiter_def)

lemma detect_read_fails:
  "open_read fsys filepath = Inr c \<Longrightarrow> read_text e c 2048 = Inl x \<Longrightarrow>
     detect_csv_delimiter e fsys filepath = Inr None"
  by (simp add: detect_csv_delimiter_def)

lemma detect_sample:
  "open_read fsys filepath = Inr c \<Longrightarrow> read_text e c 2048 = Inr sample \<Longrightarrow>
     detect_csv_delimiter e fsys filepath =
       (case has_header e sample of
          Inl x \<Rightarrow> Inr None
        | Inr True \<Rightarrow> (case sniff e sample of Inl x \<Rightarrow> Inr None | Inr d \<Rightarrow> Inr (Some [d]))
        | Inr False \<Rightarrow> Inr (Some '',''))"
  by (simp add: detect_csv_delimiter_def split: sum.splits bool.splits)

text \<open>
  C9. \<open>detect_csv_delimiter\<close> returns for every path, file system and library behaviour,
  and never raises: the result is \<^verbatim>\<open>None\<close>, the comma, or the delimiter the sniffer
  found in the sample. A missing file, a file that may not be opened and a file whose
  text does not decode all give \<^verbatim>\<open>None\<close>.
\<close>

theorem detect_csv_delimiter_never_raises:
  "(\<exists>r. detect_csv_delimiter e fsys filepath = Inr r \<and>
        (r = None \<or> r = Some '','' \<or>
         (\<exists>c sample d. open_read fsys filepath = Inr c \<and> read_text e c 2048 = Inr sample \<and>
            sniff e sample = Inr d \<and> r = Some [d]))) \<and>
   (files fsys filepath = None \<longrightarrow> detect_csv_delimiter e fsys filepath = Inr None) \<and>
   (files fsys filepath = Some NoAccess \<longrightarrow> detect_csv_delimiter e fsys filepath = Inr None) \<and>
   (files fsys filepath = Some (Regular c) \<and> read_text e c 2048 = Inl x \<longrightarrow>
      detect_csv_delimiter e fsys filepath = Inr None)"
proof -
  have total: "\<exists>r. detect_csv_delimiter e fsys filepath = Inr r \<and>
        (r = None \<or> r = Some '','' \<or>
         (\<exists>c sample d. open_read fsys filepath = Inr c \<and> read_text e c 2048 = Inr sample \<and>
            sniff e sample = Inr d \<and> r = Some [d]))"
  proof (cases "open_read fsys filepath")
    case (Inl x)
    then show ?thesis by (simp add: detect_open_fails)
  next
    case (Inr c)
    show ?thesis
    proof (cases "read_text e c 2048")
      case (Inl x)
      with Inr show ?thesis by (simp add: detect_read_fails)
    next
      case sample: (Inr sample)
      show ?thesis
        using detect_sample [OF Inr sample] Inr sample
        by (auto split: sum.splits bool.splits)
    qed
  qed
  have missing: "files fsys filepath = None \<longrightarrow> detect_csv_delimiter e fsys filepath = Inr None"
    by (simp add: detect_open_fails open_read_def)
  have noaccess: "files fsys filepath = Some NoAccess \<longrightarrow> detect_csv_delimiter e fsys filepath = Inr None"
    by (simp add: detect_open_fails open_read_def)
  have nontext: "files fsys filepath = Some (Regular c) \<and> read_text e c 2048 = Inl x \<longrightarrow>
      detect_csv_delimiter e fsys filepath = Inr None"
    by (auto intro: detect_read_fails simp: open_read_def)
  from total missing noaccess nontext show ?thesis by blast
qed

theorem detect_csv_delimiter_never_raises_witness:
  "detect_csv_delimiter ref_env (fs_of [(''locked.csv'', NoAccess), (''blob.csv'', Regular [CHR 0xFF, CHR 0xFE])]) ''gone.csv'' = Inr None \<and>
   detect_csv_delimiter ref_env (fs_of [(''locked.csv'', NoAccess), (''blob.csv'', Regular [CHR 0xFF, CHR 0xFE])]) ''locked.csv'' = Inr None \<and>
   detect_csv_delimiter ref_env (fs_of [(''locked.csv'', NoAccess), (''blob.csv'', Regular [CHR 0xFF, CHR 0xFE])]) ''blob.csv'' = Inr None"
proof -
  let ?fs = "fs_of [(''locked.csv'', NoAccess), (''blob.csv'', Regular [CHR 0xFF, CHR 0xFE])]"
  have h1: "files ?fs ''gone.csv'' = None" by (simp add: fs_of_def)
  have h2: "files ?fs ''locked.csv'' = Some NoAccess" by (simp add: fs_of_def)
  have h3: "files ?fs ''blob.csv'' = Some (Regular [CHR 0xFF, CHR 0xFE])" by (simp add: fs_of_def)
  have h4: "read_text ref_env [CHR 0xFF, CHR 0xFE] 2048 = Inl UnicodeDecodeError"
    by (simp add: ref_env_def ref_read_text_def)
  from detect_csv_delimiter_never_raises [of ref_env ?fs "''gone.csv''"] h1
  have a: "detect_csv_delimiter ref_env ?fs ''gone.csv'' = Inr None" by blast
  from detect_csv_delimiter_never_raises [of ref_env ?fs "''locked.csv''"] h2
  have b: "detect_csv_delimiter ref_env ?fs ''locked.csv'' = Inr None" by blast
  from detect_csv_delimiter_never_raises [of ref_env ?fs "''blob.csv''" "[CHR 0xFF, CHR 0xFE]" UnicodeDecodeError] h3 h4
  have c: "detect_csv_delimiter ref_env ?fs ''blob.csv'' = Inr None" by blast
  from a b c show ?thesis by blast
qed

lemma open_write_ok:
  "files fsys p \<noteq> Some NoAccess \<Longrightarrow>
     open_write fsys p c = Inr (fsys\<lparr>files := (files fsys)(p \<mapsto> Regular c)\<rparr>)"
  by (auto simp: open_write_def split: option.splits node.splits)

lemma open_write_denied:
  "files fsys p = Some NoAccess \<Longrightarrow> open_write fsys p c = Inl PermissionError"
  by (simp add: open_write_def)

lemma open_read_written [simp]:
  "open_read (fs (written st name content)) (''temp/'' @ name) = Inr content"
  by (simp add: written_def open_read_def)

lemma ui_written [simp]: "ui (written st name content) = ui st"
  by (simp add: written_def)

lemma notifications_written [simp]: "notifications (written st name content) = notifications st"
  by (simp add: written_def)


lemma handle_upload_written:
  assumes "files (fs st) (''temp/'' @ name) \<noteq> Some NoAccess"
  shows "handle_upload e st name content =
     (case read_file e (written st name content) (''temp/'' @ name) None of
        Inl x \<Rightarrow> notify x (written st name content)
      | Inr (df, st3) \<Rightarrow>
          if df \<noteq> PyNone
          then (case display_table st3 (''temp/'' @ name) df of
                  (Inl x, st4) \<Rightarrow> notify x st4
                | (Inr u, st4) \<Rightarrow> st4)
          else st3)"
proof (cases "temp_dir (fs st)")
  case True
  then have w: "written st name content =
      st\<lparr>fs := (fs st)\<lparr>files := (files (fs st))(''temp/'' @ name \<mapsto> Regular content)\<rparr>\<rparr>"
    by (simp add: written_def)
  show ?thesis
    using assms True unfolding w
    by (simp add: handle_upload_def open_write_ok Let_def del: append.simps)
next
  case False
  have w: "written st name content =
      st\<lparr>fs := (fs st)\<lparr>temp_dir := True, files := (files (fs st))(''temp/'' @ name \<mapsto> Regular content)\<rparr>\<rparr>"
    by (simp add: written_def)
  show ?thesis
    using assms False unfolding w
    by (simp add: handle_upload_def open_write_ok makedirs_temp_def Let_def del: append.simps)
qed

lemma read_file_csv:
  "extension filepath \<in> set csv_extensions \<Longrightarrow>
     read_file e st filepath sheet_name = csv_case e st filepath"
  by (simp add: read_file_def)


lemma csv_case_load:
  "detect_csv_delimiter e (fs st) filepath = Inr (Some d) \<Longrightarrow> d \<noteq> [] \<Longrightarrow>
   open_read (fs st) filepath = Inr c \<Longrightarrow>
     csv_case e st filepath =
       (case read_csv e c d HeaderInfer of Inl x \<Rightarrow> Inl x | Inr df \<Rightarrow> Inr (DataFrame df, st))"
  by (simp add: csv_case_def falsy_def)




text \<open>
  C3 does not hold as stated: the sniffer's verdict never reaches the reader. Amended:
  for every CSV or TXT file that resolves without prompting, the file is parsed with
  the resolved delimiter and with the reader's default header handling, the first row
  as the header, whichever verdict the sniffer gave; the verdict only selects between
  the sniffed delimiter and the comma, and the reader is given nothing else.
\<close>

theorem loader_header_argument_fixed:
  assumes ext: "extension filepath \<in> set csv_extensions"
      and opn: "open_read (fs st) filepath = Inr c"
      and smp: "read_text e c 2048 = Inr sample"
      and verdict: "has_header e sample = Inr h"
      and sniffed: "h \<longrightarrow> sniff e sample = Inr d"
  shows "read_file e st filepath sheet_name =
           (case read_csv e c (if h then [d] else '','') HeaderInfer of
              Inl x \<Rightarrow> Inl x
            | Inr df \<Rightarrow> Inr (DataFrame df, st))"
proof (cases h)
  case True
  with verdict sniffed have "detect_csv_delimiter e (fs st) filepath = Inr (Some [d])"
    by (simp add: detect_sample [OF opn smp])
  with True opn show ?thesis
    by (simp add: read_file_csv [OF ext] csv_case_load)
next
  case False
  with verdict have "detect_csv_delimiter e (fs st) filepath = Inr (Some '','')"
    by (simp add: detect_sample [OF opn smp])
  with False opn show ?thesis
    by (simp add: read_file_csv [OF ext] csv_case_load)
qed

theorem loader_header_argument_fixed_witness:
  "read_file ref_env (state_with ''h.csv'' ''a,b\<newline>1,2\<newline>'') ''h.csv'' None =
     Inr (DataFrame \<lparr>columns = [''a'', ''b''], rows = [[Num 1, Num 2]]\<rparr>,
          state_with ''h.csv'' ''a,b\<newline>1,2\<newline>'') \<and>
   read_file ref_env (state_with ''n.csv'' ''1,2\<newline>3,4\<newline>'') ''n.csv'' None =
     Inr (DataFrame \<lparr>columns = [''1'', ''2''], rows = [[Num 3, Num 4]]\<rparr>,
          state_with ''n.csv'' ''1,2\<newline>3,4\<newline>'')"
proof -
  let ?A = "''a,b\<newline>1,2\<newline>''" and ?B = "''1,2\<newline>3,4\<newline>''"
  have extA: "extension ''h.csv'' \<in> set csv_extensions" by code_simp
  have extB: "extension ''n.csv'' \<in> set csv_extensions" by code_simp
  have opnA: "open_read (fs (state_with ''h.csv'' ?A)) ''h.csv'' = Inr ?A"
    by (simp add: state_with_def open_read_def)
  have opnB: "open_read (fs (state_with ''n.csv'' ?B)) ''n.csv'' = Inr ?B"
    by (simp add: state_with_def open_read_def)
  have sA: "read_text ref_env ?A 2048 = Inr ?A" by code_simp
  have sB: "read_text ref_env ?B 2048 = Inr ?B" by code_simp
  have hA: "has_header ref_env ?A = Inr True" by code_simp
  have hB: "has_header ref_env ?B = Inr False" by code_simp
  have dA: "True \<longrightarrow> sniff ref_env ?A = Inr CHR '',''" by code_simp
  have dB: "False \<longrightarrow> sniff ref_env ?B = Inr CHR '';''" by simp
  have rA: "read_csv ref_env ?A '','' HeaderInfer = Inr \<lparr>columns = [''a'', ''b''], rows = [[Num 1, Num 2]]\<rparr>"
    by code_simp
  have rB: "read_csv ref_env ?B '','' HeaderInfer = Inr \<lparr>columns = [''1'', ''2''], rows = [[Num 3, Num 4]]\<rparr>"
    by code_simp
  from loader_header_argument_fixed [OF extA opnA sA hA dA, of None] rA
  have a: "read_file ref_env (state_with ''h.csv'' ?A) ''h.csv'' None =
     Inr (DataFrame \<lparr>columns = [''a'', ''b''], rows = [[Num 1, Num 2]]\<rparr>, state_with ''h.csv'' ?A)"
    by simp
  from loader_header_argument_fixed [OF extB opnB sB hB dB, of None] rB
  have b: "read_file ref_env (state_with ''n.csv'' ?B) ''n.csv'' None =
     Inr (DataFrame \<lparr>columns = [''1'', ''2''], rows = [[Num 3, Num 4]]\<rparr>, state_with ''n.csv'' ?B)"
    by simp
  from a b show ?thesis by blast
qed

text \<open>
  The claim fails on a file of two numeric rows: the sniffer finds no header, and the
  first row is still taken as the column names, where a parse without header keeps both
  rows as data.
\<close>

theorem loader_header_verdict_counterexample:
  "has_header ref_env ''1,2\<newline>3,4\<newline>'' = Inr False \<and>
   map_sum id fst (read_file ref_env (state_with ''n.csv'' ''1,2\<newline>3,4\<newline>'') ''n.csv'' None) =
     Inr (DataFrame \<lparr>columns = [''1'', ''2''], rows = [[Num 3, Num 4]]\<rparr>) \<and>
   read_csv ref_env ''1,2\<newline>3,4\<newline>'' '','' HeaderNone =
     Inr \<lparr>columns = [''0'', ''1''], rows = [[Num 1, Num 2], [Num 3, Num 4]]\<rparr>"
  by code_simp

section \<open>Excel workbooks\<close>

text \<open>
  The parts of C1 that hold: a workbook of two or more sheets and no sheet name gives
  the row that offers every sheet name, and a non-empty sheet name gives the parse of
  that sheet, which \<open>handle_excel_sheet\<close> shows.
\<close>

lemma read_file_excel:
  "extension filepath \<in> set excel_extensions \<Longrightarrow>
     read_file e st filepath sheet_name = excel_case e st filepath sheet_name"
  by (auto simp: read_file_def csv_extensions_def excel_extensions_def)

lemma excel_prompt:
  assumes "extension filepath \<in> set excel_extensions"
      and "open_read (fs st) filepath = Inr c"
      and "sheet_names e c = Inr names" and "1 < length names"
  shows "read_file e st filepath None =
           Inr (PyNone, st\<lparr>ui := ui st @ [sheet_prompt filepath names]\<rparr>)"
  using assms by (simp add: read_file_excel excel_case_def falsy_def)

lemma excel_named_sheet:
  assumes "extension filepath \<in> set excel_extensions"
      and "open_read (fs st) filepath = Inr c"
      and "sheet_names e c = Inr names" and "n \<noteq> []"
  shows "read_file e st filepath (Some n) =
           (case read_sheet e c n of Inl x \<Rightarrow> Inl x | Inr df \<Rightarrow> Inr (DataFrame df, st))"
  using assms by (simp add: read_file_excel excel_case_def falsy_def read_excel_def split: sum.splits)

lemma excel_sheet_loaded:
  assumes "extension filepath \<in> set excel_extensions"
      and "open_read (fs st) filepath = Inr c"
      and "sheet_names e c = Inr names" and "n \<noteq> []"
      and "read_sheet e c n = Inr df"
  shows "handle_excel_sheet e st filepath (Some n) container =
           (Inr (), st\<lparr>ui := ui st @ [preview_card filepath df]\<rparr>)"
  using assms by (simp add: handle_excel_sheet_def excel_named_sheet display_table_def)

text \<open>
  C1, the part that fails. For a workbook of exactly one sheet and no sheet name,
  \<open>read_file\<close> passes \<^verbatim>\<open>sheet_name=None\<close> on to \<^verbatim>\<open>pd.read_excel\<close> and returns the
  dict of all sheets, not the parse of the sheet: the upload builds a card with a label
  only and ends in an \<^verbatim>\<open>AttributeError\<close> notification, without a table.
\<close>

theorem single_sheet_returns_dict:
  assumes ext: "extension filepath \<in> set excel_extensions"
      and opn: "open_read (fs st) filepath = Inr c"
      and one: "sheet_names e c = Inr [n]"
      and parse: "read_sheet e c n = Inr df"
  shows "read_file e st filepath None = Inr (SheetDict [(n, df)], st) \<and>
         (\<forall>st0 name. filepath = ''temp/'' @ name \<and> st = written st0 name c \<and>
              files (fs st0) filepath \<noteq> Some NoAccess \<longrightarrow>
            ui (handle_upload e st0 name c) = ui st0 @ [Card [Label (''Preview of '' @ filepath)]] \<and>
            notifications (handle_upload e st0 name c) =
              notifications st0 @ [AttributeError ''columns''])"
proof -
  have rf: "read_file e st filepath None = Inr (SheetDict [(n, df)], st)"
    using opn one parse by (simp add: read_file_excel [OF ext] excel_case_def falsy_def read_excel_def)
  have up: "\<forall>st0 name. filepath = ''temp/'' @ name \<and> st = written st0 name c \<and>
              files (fs st0) filepath \<noteq> Some NoAccess \<longrightarrow>
            ui (handle_upload e st0 name c) = ui st0 @ [Card [Label (''Preview of '' @ filepath)]] \<and>
            notifications (handle_upload e st0 name c) =
              notifications st0 @ [AttributeError ''columns'']"
    using rf by (auto simp: handle_upload_written display_table_def notify_def simp del: append.simps)
  from rf up show ?thesis by blast
qed

theorem single_sheet_returns_dict_witness:
  "map_sum id fst (read_file ref_env (written initial_state ''one.xlsx'' ''#Sheet1\<newline>a,b\<newline>1,2\<newline>'') ''temp/one.xlsx'' None) =
     Inr (SheetDict [(''Sheet1'', \<lparr>columns = [''a'', ''b''], rows = [[Num 1, Num 2]]\<rparr>)]) \<and>
   ui (handle_upload ref_env initial_state ''one.xlsx'' ''#Sheet1\<newline>a,b\<newline>1,2\<newline>'') =
     [Card [Label ''Preview of temp/one.xlsx'']] \<and>
   notifications (handle_upload ref_env initial_state ''one.xlsx'' ''#Sheet1\<newline>a,b\<newline>1,2\<newline>'') =
     [AttributeError ''columns'']"
proof -
  let ?W = "''#Sheet1\<newline>a,b\<newline>1,2\<newline>''"
  let ?df = "\<lparr>columns = [''a'', ''b''], rows = [[Num 1, Num 2]]\<rparr>"
  have ext: "extension ''temp/one.xlsx'' \<in> set excel_extensions" by code_simp
  have opn: "open_read (fs (written initial_state ''one.xlsx'' ?W)) ''temp/one.xlsx'' = Inr ?W"
    using open_read_written [of initial_state "''one.xlsx''" ?W] by simp
  have one: "sheet_names ref_env ?W = Inr [''Sheet1'']" by code_simp
  have parse: "read_sheet ref_env ?W ''Sheet1'' = Inr ?df" by code_simp
  have i: "files (fs initial_state) ''temp/one.xlsx'' \<noteq> Some NoAccess"
    "ui initial_state = []" "notifications initial_state = []"
    by (simp_all add: initial_state_def)
  note t = single_sheet_returns_dict [OF ext opn one parse]
  from t have a: "map_sum id fst (read_file ref_env (written initial_state ''one.xlsx'' ?W) ''temp/one.xlsx'' None) =
     Inr (SheetDict [(''Sheet1'', ?df)])" by simp
  from t i(1) have b: "ui (handle_upload ref_env initial_state ''one.xlsx'' ?W) =
       ui initial_state @ [Card [Label (''Preview of '' @ ''temp/one.xlsx'')]] \<and>
     notifications (handle_upload ref_env initial_state ''one.xlsx'' ?W) =
       notifications initial_state @ [AttributeError ''columns'']"
    by auto
  from a b i show ?thesis by simp
qed

section \<open>The preview of a loaded file\<close>

lemma length_to_dict_records [simp]: "length (to_dict_records df) = length (rows df)"
  by (simp add: to_dict_records_def)

lemma rows_head [simp]: "rows (head n df) = take n (rows df)"
  by (simp add: head_def)

lemma columns_head [simp]: "columns (head n df) = columns df"
  by (simp add: head_def)





section \<open>The manual delimiter\<close>

text \<open>
  C5 does not hold as stated: a failed parse leaves the row that asks for the delimiter
  in place. Amended: every submission of a delimiter makes exactly one parse of the
  file. If the file cannot be read or the parse raises, the exception is shown as one
  notification and nothing else changes: the page, with the input row and its Submit
  button, is as before, and no new row is added. If the parse succeeds, the row is
  emptied and one preview card is added.
\<close>

theorem manual_delimiter_one_parse:
  "((open_read (fs st) filepath = Inl x \<or>
     (open_read (fs st) filepath = Inr c \<and> read_csv e c delimiter HeaderInfer = Inl x)) \<longrightarrow>
      handle_manual_delimiter e st filepath delimiter container = notify x st \<and>
      ui (handle_manual_delimiter e st filepath delimiter container) = ui st \<and>
      notifications (handle_manual_delimiter e st filepath delimiter container) =
        notifications st @ [x]) \<and>
   (open_read (fs st) filepath = Inr c \<and> read_csv e c delimiter HeaderInfer = Inr df \<longrightarrow>
      ui (handle_manual_delimiter e st filepath delimiter container) =
        (ui st)[container := Row []] @ [preview_card filepath df] \<and>
      notifications (handle_manual_delimiter e st filepath delimiter container) =
        notifications st)"
  by (auto simp: handle_manual_delimiter_def notify_def display_table_def)

theorem manual_delimiter_one_parse_witness:
  "ui (handle_manual_delimiter ref_env (handle_upload ref_env initial_state ''d.csv'' ragged_csv)
         ''temp/d.csv'' '','' 0) = [delimiter_prompt ''temp/d.csv''] \<and>
   notifications (handle_manual_delimiter ref_env (handle_upload ref_env initial_state ''d.csv'' ragged_csv)
         ''temp/d.csv'' '','' 0) = [ParserError ''Error tokenizing data''] \<and>
   ui (handle_manual_delimiter ref_env (handle_upload ref_env initial_state ''d.csv'' ragged_csv)
         ''temp/d.csv'' '';'' 0) =
     [Row [], preview_card ''temp/d.csv'' \<lparr>columns = [''a,b''], rows = [[Str ''1,2''], [Str ''3,4,5'']]\<rparr>] \<and>
   notifications (handle_manual_delimiter ref_env (handle_upload ref_env initial_state ''d.csv'' ragged_csv)
         ''temp/d.csv'' '';'' 0) = []"
proof -
  let ?st = "handle_upload ref_env initial_state ''d.csv'' ragged_csv"
  have opn: "open_read (fs ?st) ''temp/d.csv'' = Inr ragged_csv" by code_simp
  have bad: "read_csv ref_env ragged_csv '','' HeaderInfer = Inl (ParserError ''Error tokenizing data'')"
    by code_simp
  have good: "read_csv ref_env ragged_csv '';'' HeaderInfer =
      Inr \<lparr>columns = [''a,b''], rows = [[Str ''1,2''], [Str ''3,4,5'']]\<rparr>"
    by code_simp
  have u: "ui ?st = [delimiter_prompt ''temp/d.csv'']" by code_simp
  have n: "notifications ?st = []" by code_simp
  from manual_delimiter_one_parse [where st = ?st and filepath = "''temp/d.csv''"
      and x = "ParserError ''Error tokenizing data''" and c = ragged_csv and e = ref_env
      and delimiter = "'',''" and container = 0] opn bad u n
  have a: "ui (handle_manual_delimiter ref_env ?st ''temp/d.csv'' '','' 0) = [delimiter_prompt ''temp/d.csv''] \<and>
     notifications (handle_manual_delimiter ref_env ?st ''temp/d.csv'' '','' 0) =
       [ParserError ''Error tokenizing data'']"
    by (simp add: notify_def)
  from manual_delimiter_one_parse [where st = ?st and filepath = "''temp/d.csv''" and c = ragged_csv
      and e = ref_env and delimiter = "'';''" and container = 0
      and df = "\<lparr>columns = [''a,b''], rows = [[Str ''1,2''], [Str ''3,4,5'']]\<rparr>"] opn good u n
  have b: "ui (handle_manual_delimiter ref_env ?st ''temp/d.csv'' '';'' 0) =
       [Row [], preview_card ''temp/d.csv'' \<lparr>columns = [''a,b''], rows = [[Str ''1,2''], [Str ''3,4,5'']]\<rparr>] \<and>
     notifications (handle_manual_delimiter ref_env ?st ''temp/d.csv'' '';'' 0) = []"
    by simp
  from a b show ?thesis by blast
qed

text \<open>
  After a submission that fails, the input row is still on the page, and a second
  submission on the same row is parsed and shown.
\<close>

theorem manual_delimiter_retry_counterexample:
  "ui (handle_upload ref_env initial_state ''d.csv'' ragged_csv) = [delimiter_prompt ''temp/d.csv''] \<and>
   ui (handle_manual_delimiter ref_env (handle_upload ref_env initial_state ''d.csv'' ragged_csv)
         ''temp/d.csv'' '','' 0) = [delimiter_prompt ''temp/d.csv''] \<and>
   notifications (handle_manual_delimiter ref_env (handle_upload ref_env initial_state ''d.csv'' ragged_csv)
         ''temp/d.csv'' '','' 0) = [ParserError ''Error tokenizing data''] \<and>
   ui (handle_manual_delimiter ref_env
         (handle_manual_delimiter ref_env (handle_upload ref_env initial_state ''d.csv'' ragged_csv)
            ''temp/d.csv'' '','' 0)
         ''temp/d.csv'' '';'' 0) =
     [Row [], preview_card ''temp/d.csv'' \<lparr>columns = [''a,b''], rows = [[Str ''1,2''], [Str ''3,4,5'']]\<rparr>]"
  by code_simp

section \<open>Temp files\<close>

lemma fs_read_file:
  "read_file e st p sn = Inr (v, st') \<Longrightarrow> fs st' = fs st"
  by (auto simp: read_file_def csv_case_def excel_case_def sas7bdat_case_def xpt_case_def Let_def
      split: if_splits sum.splits prod.splits)

lemma fs_display_table [simp]: "fs (snd (display_table st p v)) = fs st"
  by (simp add: display_table_def split: pyval.splits)

lemma fs_notify [simp]: "fs (notify x st) = fs st"
  by (simp add: notify_def)

lemma fs_handle_manual_delimiter [simp]:
  "fs (handle_manual_delimiter e st filepath delimiter container) = fs st"
  by (simp add: handle_manual_delimiter_def display_table_def split: sum.splits)

lemma fs_handle_excel_sheet [simp]:
  "fs (snd (handle_excel_sheet e st filepath sheet_name container)) = fs st"
proof (cases "read_file e st filepath sheet_name")
  case (Inl x)
  then show ?thesis by (simp add: handle_excel_sheet_def)
next
  case (Inr r)
  obtain v st' where r: "r = (v, st')" by (cases r)
  with Inr have "fs st' = fs st" by (simp add: fs_read_file)
  with Inr r show ?thesis by (simp add: handle_excel_sheet_def)
qed

lemma fs_remove_card [simp]: "fs (remove_card st i) = fs st"
  by (simp add: remove_card_def)

lemma fs_clear_container [simp]: "fs (clear_container st i) = fs st"
  by (simp add: clear_container_def)

lemma fs_written_read:
  assumes "read_file e (written st name content) p sn = Inr (v, st3)"
  shows "fs st3 = fs (written st name content)"
  using assms by (rule fs_read_file)

lemma fs_handle_upload:
  "fs (handle_upload e st name content) =
     (if files (fs st) (''temp/'' @ name) = Some NoAccess
      then (fs st)\<lparr>temp_dir := True\<rparr>
      else fs (written st name content))"
proof (cases "files (fs st) (''temp/'' @ name) = Some NoAccess")
  case True
  then show ?thesis
    by (simp add: handle_upload_def open_write_denied makedirs_temp_def Let_def del: append.simps)
next
  case False
  show ?thesis
  proof (cases "read_file e (written st name content) (''temp/'' @ name) None")
    case (Inl x)
    with False show ?thesis by (simp add: handle_upload_written del: append.simps)
  next
    case (Inr r)
    obtain v st3 where r: "r = (v, st3)" by (cases r)
    with Inr have "fs st3 = fs (written st name content)" by (simp add: fs_read_file)
    moreover have "fs (case display_table st3 (''temp/'' @ name) v of
                        (Inl x, st4) \<Rightarrow> notify x st4 | (Inr u, st4) \<Rightarrow> st4) = fs st3"
      by (simp add: display_table_def split: pyval.splits)
    ultimately show ?thesis
      using False Inr r by (simp add: handle_upload_written del: append.simps)
  qed
qed


lemma temp_dir_written [simp]: "temp_dir (fs (written st name content))"
  by (simp add: written_def)

lemma temp_dir_handle_upload [simp]: "temp_dir (fs (handle_upload e st name content))"
  by (simp add: fs_handle_upload)











lemma shutdown_stops [simp]: "\<not> running (shutdown st)"
  by (simp add: shutdown_def Let_def)



section \<open>Two uploads\<close>









lemma temp_path_inject: "(''temp/'' @ a = ''temp/'' @ b) = (a = b)"
  by simp




end
